theory Spec2Isabelle
  imports Main
begin

section \<open>The credential store of ok.py\<close>

text \<open>
  \<^verbatim>\<open>users.db\<close> holds one table, created by \<^verbatim>\<open>setup_user_database\<close>:
  \<^verbatim>\<open>
  CREATE TABLE IF NOT EXISTS users (
      id INTEGER PRIMARY KEY AUTOINCREMENT,
      username TEXT UNIQUE,
      password TEXT)
  \<close>
  A row is the tuple \<open>(id, username, password)\<close> that \<^verbatim>\<open>fetchone\<close> hands to Python.
  The table is the list of its rows in insertion order (the order of a scan by rowid,
  since ok.py never deletes or updates a row) together with the counter that SQLite
  keeps in \<^verbatim>\<open>sqlite_sequence\<close> for an AUTOINCREMENT key.

  Every function of ok.py opens a connection of its own and is meant to close it. A
  connection that is left open in the middle of a write keeps the write lock of the
  file; \<open>leaked_writer\<close> says that there is such a connection. Reading is not hindered
  by it, writing is.

  Texts are \<open>string\<close>s. The user names and passwords reach the functions as values of
  Streamlit text inputs, so they are never NULL.
\<close>

type_synonym user_row = "nat \<times> string \<times> string"

record users_db =
  users :: "user_row list"
  sqlite_sequence :: nat
  leaked_writer :: bool

text \<open>
  The exceptions of \<^verbatim>\<open>sqlite3\<close> that an INSERT raises: IntegrityError for the UNIQUE
  constraint, OperationalError with the message of SQLite otherwise.
\<close>

datatype sqlite_error = IntegrityError | OperationalError string

definition row_username :: "user_row \<Rightarrow> string" where
  "row_username r = fst (snd r)"

definition row_password :: "user_row \<Rightarrow> string" where
  "row_password r = snd (snd r)"

text \<open>
  \<^verbatim>\<open>setup_user_database\<close>: \<open>CREATE TABLE IF NOT EXISTS\<close> on the database file. The
  file either has no table yet (\<open>None\<close>) or has one, which is left as it is. Every other
  function of this section runs after line 73 of ok.py has called it, so it takes the
  table itself.
\<close>

definition setup_user_database :: "users_db option \<Rightarrow> users_db" where
  "setup_user_database file =
     (case file of
        None \<Rightarrow> \<lparr>users = [], sqlite_sequence = 0, leaked_writer = False\<rparr>
      | Some db \<Rightarrow> db)"

text \<open>\<^verbatim>\<open>cursor.fetchone()\<close>: the first row of a result, or Python's \<open>None\<close>.\<close>

definition fetchone :: "'a list \<Rightarrow> 'a option" where
  "fetchone result = (case result of [] \<Rightarrow> None | r # _ \<Rightarrow> Some r)"

text \<open>\<^verbatim>\<open>SELECT * FROM users WHERE username = ?\<close>\<close>

definition select_users_where_username :: "users_db \<Rightarrow> string \<Rightarrow> user_row list" where
  "select_users_where_username db username =
     filter (\<lambda>r. row_username r = username) (users db)"

text \<open>\<^verbatim>\<open>SELECT password FROM users WHERE username = ?\<close>: rows of one column.\<close>

definition select_password_where_username :: "users_db \<Rightarrow> string \<Rightarrow> string list" where
  "select_password_where_username db username =
     map row_password (select_users_where_username db username)"

text \<open>
  \<^verbatim>\<open>INSERT INTO users (username, password) VALUES (?, ?)\<close> on a fresh connection,
  followed by \<^verbatim>\<open>commit\<close>. SQLite goes through these steps in this order:
  \<^item> it takes the write lock, and fails with "database is locked" when another
    connection holds it;
  \<^item> it picks the AUTOINCREMENT key, one more than the largest key ever used (the
    larger of \<^verbatim>\<open>sqlite_sequence\<close> and the keys in the table), and fails with "database
    or disk is full" when that largest key is already 9223372036854775807, the largest
    64-bit signed integer;
  \<^item> it checks the UNIQUE constraint, and fails with IntegrityError on a user name that
    a row already carries;
  \<^item> it appends the row and records the key.
  A statement that fails changes neither the rows nor \<^verbatim>\<open>sqlite_sequence\<close>.
\<close>

definition max_rowid :: nat where
  "max_rowid = 9223372036854775807"

definition largest_key :: "users_db \<Rightarrow> nat" where
  "largest_key db = fold max (map fst (users db)) (sqlite_sequence db)"

definition next_rowid :: "users_db \<Rightarrow> nat" where
  "next_rowid db = Suc (largest_key db)"

definition insert_into_users :: "users_db \<Rightarrow> string \<Rightarrow> string \<Rightarrow> sqlite_error + users_db" where
  "insert_into_users db username password =
     (if leaked_writer db then Inl (OperationalError ''database is locked'')
      else if max_rowid \<le> largest_key db then Inl (OperationalError ''database or disk is full'')
      else if username \<in> set (map row_username (users db)) then Inl IntegrityError
      else Inr \<lparr>users = users db @ [(next_rowid db, username, password)],
                sqlite_sequence = next_rowid db,
                leaked_writer = False\<rparr>)"

text \<open>
  The Python runtime closes a connection that nothing refers to any more when its
  garbage collector gets to it, at a moment the script does not choose; the unfinished
  transaction of the connection is then rolled back and its lock released.
\<close>

definition collect_garbage :: "users_db \<Rightarrow> users_db" where
  "collect_garbage db = db\<lparr>leaked_writer := False\<rparr>"

subsection \<open>hash_password, user_exists, add_user, authenticate_user\<close>

text \<open>
  \<^verbatim>\<open>
  def hash_password(password):
      return hashlib.sha256(password.encode()).hexdigest()
  \<close>
  \<^verbatim>\<open>hashlib\<close> is not part of the repository. The composition of the UTF-8 encoding,
  SHA-256 and the hexadecimal rendering is the parameter \<open>sha256_hexdigest\<close> of every
  function that hashes; nothing is assumed about it.
\<close>

definition hash_password :: "(string \<Rightarrow> string) \<Rightarrow> string \<Rightarrow> string" where
  "hash_password sha256_hexdigest password = sha256_hexdigest password"

text \<open>
  \<^verbatim>\<open>
  def user_exists(username):
      cursor.execute("SELECT * FROM users WHERE username = ?", (username,))
      user = cursor.fetchone()
      return user
  \<close>
\<close>

definition user_exists :: "users_db \<Rightarrow> string \<Rightarrow> user_row option" where
  "user_exists db username = fetchone (select_users_where_username db username)"

text \<open>
  \<^verbatim>\<open>
  def add_user(username, password):
      try:
          cursor.execute("INSERT INTO users (username, password) VALUES (?, ?)",
                         (username, hash_password(password)))
          conn.commit()
          conn.close()
          return True
      except sqlite3.IntegrityError:
          return False  # Username already exists
  \<close>
  The result is what the call hands back, the returned boolean (\<open>Inr\<close>) or the
  exception that leaves it (\<open>Inl\<close>), and the store afterwards.

  The \<^verbatim>\<open>try\<close> block closes the connection; the \<^verbatim>\<open>except\<close> branch returns without closing
  it. The rejected INSERT has begun a transaction and taken the write lock, so the
  connection that is left behind is a leaked writer. An OperationalError is not caught:
  it leaves the function, and the store is as it was ("database or disk is full" ends
  the transaction of the connection, "database is locked" never got the lock).
\<close>

definition add_user ::
  "(string \<Rightarrow> string) \<Rightarrow> string \<Rightarrow> string \<Rightarrow> users_db \<Rightarrow> (sqlite_error + bool) \<times> users_db" where
  "add_user sha256_hexdigest username password db =
     (case insert_into_users db username (hash_password sha256_hexdigest password) of
        Inr db' \<Rightarrow> (Inr True, db')
      | Inl IntegrityError \<Rightarrow> (Inr False, db\<lparr>leaked_writer := True\<rparr>)
      | Inl (OperationalError msg) \<Rightarrow> (Inl (OperationalError msg), db))"

text \<open>
  \<^verbatim>\<open>
  def authenticate_user(username, password):
      cursor.execute("SELECT password FROM users WHERE username = ?", (username,))
      stored_password = cursor.fetchone()
      conn.close()
      if stored_password and stored_password[0] == hash_password(password):
          return True
      return False
  \<close>
  \<^verbatim>\<open>stored_password\<close> is \<open>None\<close> or a tuple of one element, which is truthy. The
  function only reads, which a leaked writer does not hinder, and closes its connection
  on its only path.
\<close>

definition authenticate_user :: "(string \<Rightarrow> string) \<Rightarrow> users_db \<Rightarrow> string \<Rightarrow> string \<Rightarrow> bool" where
  "authenticate_user sha256_hexdigest db username password =
     (case fetchone (select_password_where_username db username) of
        None \<Rightarrow> False
      | Some stored_password \<Rightarrow>
          if stored_password = hash_password sha256_hexdigest password then True else False)"

subsection \<open>The login and sign-up pages\<close>

text \<open>
  \<^verbatim>\<open>st.session_state\<close> after lines 157 to 160 have run: the keys \<^verbatim>\<open>authenticated\<close> and
  \<^verbatim>\<open>signup\<close> are set, the key \<^verbatim>\<open>username\<close> is absent until a login succeeds.
\<close>

record session_state =
  authenticated :: bool
  signup :: bool
  username :: "string option"

text \<open>
  One run of the script sees at most one button pressed. The messages are the calls of
  \<^verbatim>\<open>st.error\<close> and \<^verbatim>\<open>st.success\<close>, named by their texts:
  \<^item> \<open>Invalid_credentials\<close>: "Invalid credentials. Please try again."
  \<^item> \<open>Passwords_do_not_match\<close>: "Passwords do not match. Try again."
  \<^item> \<open>Username_already_exists\<close>: "Username already exists. Try a different one."
  \<^item> \<open>Account_created\<close>: "Account created successfully! You can now log in."
  \<^item> \<open>Something_went_wrong\<close>: "Something went wrong. Try again."
  \<^item> \<open>Uncaught_exception e\<close>: the exception \<open>e\<close> left the page; Streamlit shows it in
    place of the rest of the page.
\<close>

datatype button = Login | Sign_Up | Go_to_Login

datatype message =
    Invalid_credentials
  | Passwords_do_not_match
  | Username_already_exists
  | Account_created
  | Something_went_wrong
  | Uncaught_exception sqlite_error

text \<open>
  \<^verbatim>\<open>
  def login_page():
      username = st.text_input(...); password = st.text_input(...)
      if st.button("Login"):
          if authenticate_user(username, password):
              st.session_state["authenticated"] = True
              st.session_state["username"] = username
              st.experimental_rerun()
          else:
              st.error("Invalid credentials. Please try again.")
      if st.button("Sign Up"):
          st.session_state["signup"] = True
          st.experimental_rerun()
  \<close>
  The page returns the session state and the messages it showed.
\<close>

definition login_page ::
  "(string \<Rightarrow> string) \<Rightarrow> users_db \<Rightarrow> session_state \<Rightarrow> string \<Rightarrow> string \<Rightarrow> button option
     \<Rightarrow> session_state \<times> message list" where
  "login_page sha256_hexdigest db st user_input password_input pressed =
     (if pressed = Some Login then
        (if authenticate_user sha256_hexdigest db user_input password_input
         then (st\<lparr>authenticated := True, username := Some user_input\<rparr>, [])
         else (st, [Invalid_credentials]))
      else if pressed = Some Sign_Up then (st\<lparr>signup := True\<rparr>, [])
      else (st, []))"

text \<open>
  \<^verbatim>\<open>
  def signup_page():
      if st.button("Sign Up"):
          if new_password != confirm_password:
              st.error("Passwords do not match. Try again.")
          elif user_exists(new_username):
              st.error("Username already exists. Try a different one.")
          else:
              if add_user(new_username, new_password):
                  st.success("Account created successfully! You can now log in.")
                  st.session_state["signup"] = False
                  st.experimental_rerun()
              else:
                  st.error("Something went wrong. Try again.")
      if st.button("Go to Login"):
          st.session_state["signup"] = False
          st.experimental_rerun()
  \<close>
  The page returns the store, the session state and the messages it showed. No branch
  of the page catches an exception of \<^verbatim>\<open>add_user\<close>.
\<close>

definition signup_page ::
  "(string \<Rightarrow> string) \<Rightarrow> users_db \<Rightarrow> session_state \<Rightarrow> string \<Rightarrow> string \<Rightarrow> string \<Rightarrow> button option
     \<Rightarrow> users_db \<times> session_state \<times> message list" where
  "signup_page sha256_hexdigest db st new_username new_password confirm_password pressed =
     (if pressed = Some Sign_Up then
        (if new_password \<noteq> confirm_password then (db, st, [Passwords_do_not_match])
         else if user_exists db new_username \<noteq> None then (db, st, [Username_already_exists])
         else (case add_user sha256_hexdigest new_username new_password db of
                 (Inr True, db') \<Rightarrow> (db', st\<lparr>signup := False\<rparr>, [Account_created])
               | (Inr False, db') \<Rightarrow> (db', st, [Something_went_wrong])
               | (Inl e, db') \<Rightarrow> (db', st, [Uncaught_exception e])))
      else if pressed = Some Go_to_Login then (db, st\<lparr>signup := False\<rparr>, [])
      else (db, st, []))"

text \<open>
  The UNIQUE constraint as an invariant of the table: no two rows carry the same user
  name. It holds for the empty table and every insertion keeps it.
\<close>

definition unique_usernames :: "users_db \<Rightarrow> bool" where
  "unique_usernames db = distinct (map row_username (users db))"

section \<open>The dataset store of ok.py\<close>

text \<open>
  A cell of a table or of a pandas frame is NULL (Python's \<open>None\<close>, pandas' missing
  value), an integer (SQLite stores a boolean as 0 or 1) or a text. Floating-point
  cells are outside the model.

  A frame is its column names and its rows, every row with one cell per column.
\<close>

datatype cell = Null | IntV int | TextV string

record dataframe =
  columns :: "string list"
  rows :: "cell list list"

text \<open>
  A table of \<^verbatim>\<open>vaccination_data.db\<close> is its column declarations and its rows. Of a
  declaration the model keeps the name and whether it says
  \<^verbatim>\<open>INTEGER PRIMARY KEY AUTOINCREMENT\<close>; the declared type names are left out, since
  no function of ok.py inserts a row under a declared type.
\<close>

record column_def =
  col_name :: string
  primary_key_autoincrement :: bool

record table =
  schema :: "column_def list"
  body :: "cell list list"

definition plain_column :: "string \<Rightarrow> column_def" where
  "plain_column name = \<lparr>col_name = name, primary_key_autoincrement = False\<rparr>"

text \<open>
  \<^verbatim>\<open>
  CREATE TABLE IF NOT EXISTS vaccination_data (
      id INTEGER PRIMARY KEY AUTOINCREMENT,
      STATE TEXT, CITY TEXT, AGE_GROUP TEXT, GENDER TEXT, ETHNICITY TEXT,
      VACCINATED BOOLEAN, Year INTEGER, DESCRIPTION TEXT)
  \<close>
\<close>

definition declared_schema :: "column_def list" where
  "declared_schema =
     \<lparr>col_name = ''id'', primary_key_autoincrement = True\<rparr> #
     map plain_column
       [''STATE'', ''CITY'', ''AGE_GROUP'', ''GENDER'', ''ETHNICITY'',
        ''VACCINATED'', ''Year'', ''DESCRIPTION'']"

text \<open>
  \<^verbatim>\<open>setup_vaccination_database\<close>: the file has no table yet (\<open>None\<close>), and gets an
  empty one with the declared schema, or has one, which is left as it is. The functions
  below run after line 74 of ok.py has called it.
\<close>

definition setup_vaccination_database :: "table option \<Rightarrow> table" where
  "setup_vaccination_database file =
     (case file of
        None \<Rightarrow> \<lparr>schema = declared_schema, body = []\<rparr>
      | Some t \<Rightarrow> t)"

text \<open>
  \<^verbatim>\<open>
  def is_data_present():
      cursor.execute("SELECT COUNT(*) FROM vaccination_data")
      count = cursor.fetchone()[0]
      return count > 0
  \<close>
\<close>

definition is_data_present :: "table \<Rightarrow> bool" where
  "is_data_present t = (length (body t) > 0)"

text \<open>
  \<^verbatim>\<open>df.to_sql("vaccination_data", conn, if_exists="replace", index=False)\<close>: pandas
  drops the table that is there and creates one from the frame, a column for each
  column of the frame and none for its index, then inserts the frame's rows. The
  columns it creates carry no key.

  The model covers the frames that pandas and SQLite store as they are: at least one
  column, integers within 64 bits, and in every column cells of the kind of the
  column. On a frame without columns or with a larger integer \<^verbatim>\<open>to_sql\<close> raises after
  it has dropped the table, and in a column of mixed cells SQLite converts cells to
  the type of the column; neither is modelled.
\<close>

definition to_sql_replace :: "dataframe \<Rightarrow> table" where
  "to_sql_replace df = \<lparr>schema = map plain_column (columns df), body = rows df\<rparr>"

text \<open>\<^verbatim>\<open>pd.read_sql("SELECT * FROM vaccination_data", conn)\<close>\<close>

definition read_sql_select_all :: "table \<Rightarrow> dataframe" where
  "read_sql_select_all t = \<lparr>columns = map col_name (schema t), rows = body t\<rparr>"

text \<open>
  The Python exceptions of the model: \<^verbatim>\<open>KeyError\<close> of a frame without the column asked
  for, \<^verbatim>\<open>FileNotFoundError\<close> of \<^verbatim>\<open>read_excel\<close> on a path that does not exist.
\<close>

datatype py_error = KeyError | FileNotFoundError

text \<open>
  The file at \<^verbatim>\<open>DATASET_PATH\<close> is absent (\<open>None\<close>) or holds a frame.
  \<^verbatim>\<open>os.path.exists(DATASET_PATH)\<close> and \<^verbatim>\<open>pd.read_excel(DATASET_PATH)\<close>:
\<close>

definition os_path_exists :: "dataframe option \<Rightarrow> bool" where
  "os_path_exists file = (file \<noteq> None)"

definition read_excel :: "dataframe option \<Rightarrow> py_error + dataframe" where
  "read_excel file = (case file of None \<Rightarrow> Inl FileNotFoundError | Some df \<Rightarrow> Inr df)"

text \<open>
  \<^verbatim>\<open>
  def load_data_into_db():
      if not is_data_present():
          if os.path.exists(DATASET_PATH):
              df = pd.read_excel(DATASET_PATH)
              conn = create_connection(DB_FILE)
              df.to_sql("vaccination_data", conn, if_exists="replace", index=False)
              conn.close()
              print("Data loaded into the database successfully!")
          else:
              print("Error: File not found at the specified path!")
  \<close>
  The function has no \<^verbatim>\<open>return\<close> and no \<^verbatim>\<open>raise\<close> statement: where no call inside it
  raises, it hands Python's \<open>None\<close> back to line 75, which drops it. The model returns
  the table afterwards, the lines printed, and what the call hands back: \<open>Inr ()\<close> for
  the returned \<open>None\<close>, \<open>Inl e\<close> for an exception \<open>e\<close> that leaves the function.
\<close>

datatype console_line = Data_loaded_successfully | Error_file_not_found

definition load_data_into_db ::
  "dataframe option \<Rightarrow> table \<Rightarrow> table \<times> console_line list \<times> (py_error + unit)" where
  "load_data_into_db dataset t =
     (if \<not> is_data_present t then
        (if os_path_exists dataset then
           (case read_excel dataset of
              Inl e \<Rightarrow> (t, [], Inl e)
            | Inr df \<Rightarrow> (to_sql_replace df, [Data_loaded_successfully], Inr ()))
         else (t, [Error_file_not_found], Inr ()))
      else (t, [], Inr ()))"

subsection \<open>The dashboard's filters\<close>

text \<open>The position of a column name, as pandas' \<^verbatim>\<open>Index.get_loc\<close> finds it.\<close>

fun get_loc :: "string list \<Rightarrow> string \<Rightarrow> nat option" where
  "get_loc [] name = None"
| "get_loc (c # cs) name = (if c = name then Some 0 else map_option Suc (get_loc cs name))"

text \<open>\<^verbatim>\<open>df[name]\<close>: the column as a series, KeyError when the frame has no such column.\<close>

definition getitem :: "dataframe \<Rightarrow> string \<Rightarrow> py_error + cell list" where
  "getitem df name =
     (case get_loc (columns df) name of
        None \<Rightarrow> Inl KeyError
      | Some i \<Rightarrow> Inr (map (\<lambda>r. r ! i) (rows df)))"

text \<open>
  \<^verbatim>\<open>series == value\<close>: elementwise, and a missing value equals nothing, on either side.
\<close>

definition series_eq :: "cell list \<Rightarrow> cell \<Rightarrow> bool list" where
  "series_eq s v = map (\<lambda>x. x \<noteq> Null \<and> v \<noteq> Null \<and> x = v) s"

text \<open>\<^verbatim>\<open>series.isin(values)\<close>\<close>

definition isin :: "cell list \<Rightarrow> cell list \<Rightarrow> bool list" where
  "isin s vs = map (\<lambda>x. x \<in> set vs) s"

text \<open>\<^verbatim>\<open>mask & mask\<close>\<close>

definition series_and :: "bool list \<Rightarrow> bool list \<Rightarrow> bool list" where
  "series_and a b = map2 (\<and>) a b"

text \<open>\<^verbatim>\<open>df[mask]\<close>: the rows where the mask is True, in their order.\<close>

definition getitem_mask :: "dataframe \<Rightarrow> bool list \<Rightarrow> dataframe" where
  "getitem_mask df keep = df\<lparr>rows := map snd (filter fst (zip keep (rows df)))\<rparr>"

text \<open>\<^verbatim>\<open>series.dropna()\<close> and \<^verbatim>\<open>series.unique()\<close> (in order of first appearance).\<close>

definition dropna :: "cell list \<Rightarrow> cell list" where
  "dropna s = filter (\<lambda>x. x \<noteq> Null) s"

definition unique :: "cell list \<Rightarrow> cell list" where
  "unique s = rev (remdups (rev s))"

text \<open>\<^verbatim>\<open>vaccine_options = df["DESCRIPTION"].dropna().unique()\<close>\<close>

definition vaccine_options :: "dataframe \<Rightarrow> py_error + cell list" where
  "vaccine_options df =
     (case getitem df ''DESCRIPTION'' of
        Inl e \<Rightarrow> Inl e
      | Inr description \<Rightarrow> Inr (unique (dropna description)))"

text \<open>
  \<^verbatim>\<open>
  filtered_df = df[(df["STATE"] == state) & (df["CITY"] == city)
                   & (df["DESCRIPTION"].isin(selected_vaccines))]
  \<close>
  \<^verbatim>\<open>state\<close> and \<^verbatim>\<open>city\<close> are the values of the two select boxes (\<open>None\<close> when a box
  has no option to offer), \<^verbatim>\<open>selected_vaccines\<close> the list the multiselect returns.
\<close>

definition filtered_df :: "dataframe \<Rightarrow> cell \<Rightarrow> cell \<Rightarrow> cell list \<Rightarrow> py_error + dataframe" where
  "filtered_df df state city selected_vaccines =
     (case getitem df ''STATE'' of
        Inl e \<Rightarrow> Inl e
      | Inr states \<Rightarrow>
     (case getitem df ''CITY'' of
        Inl e \<Rightarrow> Inl e
      | Inr cities \<Rightarrow>
     (case getitem df ''DESCRIPTION'' of
        Inl e \<Rightarrow> Inl e
      | Inr descriptions \<Rightarrow>
          Inr (getitem_mask df
                 (series_and (series_and (series_eq states state) (series_eq cities city))
                    (isin descriptions selected_vaccines))))))"

text \<open>
  The words of the claims about records: the cell of a row under a column name, a row
  that matches a state and a city, and a row that matches the three criteria.
\<close>

definition cell_of :: "string list \<Rightarrow> cell list \<Rightarrow> string \<Rightarrow> cell" where
  "cell_of cols r name = (case get_loc cols name of None \<Rightarrow> Null | Some i \<Rightarrow> r ! i)"

definition state_city_match :: "string list \<Rightarrow> cell \<Rightarrow> cell \<Rightarrow> cell list \<Rightarrow> bool" where
  "state_city_match cols state city r =
     (cell_of cols r ''STATE'' = state \<and> cell_of cols r ''CITY'' = city)"

definition criteria_match :: "string list \<Rightarrow> cell \<Rightarrow> cell \<Rightarrow> cell list \<Rightarrow> cell list \<Rightarrow> bool" where
  "criteria_match cols state city selected r =
     (state_city_match cols state city r \<and> cell_of cols r ''DESCRIPTION'' \<in> set selected)"

definition has_description :: "string list \<Rightarrow> cell list \<Rightarrow> bool" where
  "has_description cols r = (cell_of cols r ''DESCRIPTION'' \<noteq> Null)"

section \<open>The forecast engine\<close>

text \<open>
  ok.py imports \<^verbatim>\<open>ARIMA\<close> from statsmodels (line 7) and never calls it: the section
  "TREND ANALYSIS" at line 201 is cut off before its first statement. The function of
  the specification is therefore taken from the specification.
\<close>

datatype forecast_error = InsufficientData | NonConvergence

text \<open>
  Modelled from the spec: \<^verbatim>\<open>fit_and_forecast\<close>, which the source does not contain.
  Section 4.5: it "fits an ARIMA(p,d,q) model to series and produces horizon future
  point predictions", it "fails with InsufficientData if the series has fewer points
  than required by the model order (p+d+q+1 as a practical minimum)", and it "fails
  with NonConvergence if the underlying numerical optimizer does not converge within
  its iteration budget". Section 8: on "a series of length 1" it "fails with
  InsufficientData", with no order named.

  Section 4.5 gives p+d+q+1 as a minimum of the number of points required, not as
  the number itself, and section 8 has one point too few under any order. The number
  required is taken as the least that agrees with both sentences: the larger of 2 and
  p+d+q+1. The numerical fit is the library's; it is the parameter \<open>arima\<close>, which
  returns the predictions or \<open>None\<close> when the optimizer does not converge.
\<close>

definition required_points :: "nat \<times> nat \<times> nat \<Rightarrow> nat" where
  "required_points order = (case order of (p, d, q) \<Rightarrow> max 2 (p + d + q + 1))"

definition fit_and_forecast ::
  "('a list \<Rightarrow> nat \<Rightarrow> nat \<times> nat \<times> nat \<Rightarrow> 'r option)
     \<Rightarrow> 'a list \<Rightarrow> nat \<Rightarrow> nat \<times> nat \<times> nat \<Rightarrow> forecast_error + 'r" where
  "fit_and_forecast arima series horizon order =
     (if length series < required_points order then Inl InsufficientData
      else (case arima series horizon order of
              None \<Rightarrow> Inl NonConvergence
            | Some predictions \<Rightarrow> Inr predictions))"

section \<open>Properties of the credential store\<close>

lemma fetchone_filter_None:
  "fetchone (filter P xs) = None \<longleftrightarrow> (\<forall>x \<in> set xs. \<not> P x)"
  by (induction xs) (auto simp: fetchone_def)

lemma select_absent:
  "u \<notin> set (map row_username (users db)) \<Longrightarrow> select_users_where_username db u = []"
  by (auto simp: select_users_where_username_def filter_empty_conv)

lemma add_user_fresh:
  assumes "u \<notin> set (map row_username (users db))"
    and "\<not> leaked_writer db" and "largest_key db < max_rowid"
  shows "add_user h u p db =
           (Inr True, \<lparr>users = users db @ [(next_rowid db, u, hash_password h p)],
                       sqlite_sequence = next_rowid db, leaked_writer = False\<rparr>)"
  using assms by (simp add: add_user_def insert_into_users_def)

lemma add_user_taken:
  assumes "u \<in> set (map row_username (users db))"
    and "\<not> leaked_writer db" and "largest_key db < max_rowid"
  shows "add_user h u p db = (Inr False, db\<lparr>leaked_writer := True\<rparr>)"
  using assms by (simp add: add_user_def insert_into_users_def)

lemma add_user_locked:
  assumes "leaked_writer db"
  shows "add_user h u p db = (Inl (OperationalError ''database is locked''), db)"
  using assms by (simp add: add_user_def insert_into_users_def)

lemma add_user_full:
  assumes "\<not> leaked_writer db" and "max_rowid \<le> largest_key db"
  shows "add_user h u p db = (Inl (OperationalError ''database or disk is full''), db)"
  using assms by (simp add: add_user_def insert_into_users_def)

lemma add_user_cases:
  fixes db :: users_db
  shows "add_user h u p db =
     (if leaked_writer db then (Inl (OperationalError ''database is locked''), db)
      else if max_rowid \<le> largest_key db
        then (Inl (OperationalError ''database or disk is full''), db)
      else if u \<in> set (map row_username (users db)) then (Inr False, db\<lparr>leaked_writer := True\<rparr>)
      else (Inr True, \<lparr>users = users db @ [(next_rowid db, u, hash_password h p)],
                       sqlite_sequence = next_rowid db, leaked_writer = False\<rparr>))"
  by (simp add: add_user_def insert_into_users_def)

lemma add_user_keeps_rows_unless_True:
  fixes db :: users_db
  assumes "fst (add_user h u p db) \<noteq> Inr True"
  shows "users (snd (add_user h u p db)) = users db
       \<and> sqlite_sequence (snd (add_user h u p db)) = sqlite_sequence db"
  using assms by (simp add: add_user_cases split: if_splits)

lemma unique_usernames_setup: "unique_usernames (setup_user_database None)"
  by (simp add: unique_usernames_def setup_user_database_def)

lemma unique_usernames_add_user:
  fixes db :: users_db
  assumes "unique_usernames db"
  shows "unique_usernames (snd (add_user h u p db))"
  using assms
  by (auto simp: unique_usernames_def add_user_cases row_username_def)

lemma unique_usernames_collect_garbage:
  "unique_usernames (collect_garbage db) = unique_usernames db"
  by (simp add: unique_usernames_def collect_garbage_def)

lemma add_user_True_iff:
  fixes db :: users_db
  shows "fst (add_user h u p db) = Inr True \<longleftrightarrow>
           u \<notin> set (map row_username (users db)) \<and> \<not> leaked_writer db
           \<and> largest_key db < max_rowid"
  by (auto simp: add_user_cases)

lemma add_user_registers:
  fixes db :: users_db
  assumes "add_user h u p db = (Inr True, db1)"
  shows "u \<in> set (map row_username (users db1)) \<and> \<not> leaked_writer db1"
proof -
  have ok: "u \<notin> set (map row_username (users db))" "\<not> leaked_writer db"
    "largest_key db < max_rowid"
    using assms add_user_True_iff [of h u p db] by simp_all
  have "db1 = \<lparr>users = users db @ [(next_rowid db, u, hash_password h p)],
               sqlite_sequence = next_rowid db, leaked_writer = False\<rparr>"
    using assms add_user_fresh [OF ok, of h p] by simp
  then show ?thesis by (simp add: row_username_def)
qed

lemma user_exists_iff:
  fixes db :: users_db
  shows "user_exists db u \<noteq> None \<longleftrightarrow> u \<in> set (map row_username (users db))"
  by (auto simp: user_exists_def select_users_where_username_def fetchone_filter_None)

lemma signup_page_created:
  fixes db :: users_db
  assumes "signup_page h db st u p c pressed = (db1, st1, [Account_created])"
  shows "add_user h u p db = (Inr True, db1)"
  using assms
  by (auto simp: signup_page_def split: if_splits prod.splits sum.splits bool.splits)

lemma signup_page_taken:
  fixes db :: users_db
  assumes "u \<in> set (map row_username (users db))"
  shows "signup_page h db st u p p (Some Sign_Up) = (db, st, [Username_already_exists])"
  using assms user_exists_iff [of db u] by (simp add: signup_page_def)

lemma stored_password_unique:
  assumes "distinct (map row_username rs)" and "(i, u, s) \<in> set rs"
  shows "map row_password (filter (\<lambda>r. row_username r = u) rs) = [s]"
  using assms
proof (induction rs)
  case Nil
  then show ?case by simp
next
  case (Cons r rs)
  show ?case
  proof (cases "r = (i, u, s)")
    case True
    then have "u \<notin> row_username ` set rs"
      using Cons.prems(1) by (simp add: row_username_def)
    then have "filter (\<lambda>r. row_username r = u) rs = []"
      by (auto simp: filter_empty_conv)
    then show ?thesis using True by (simp add: row_username_def row_password_def)
  next
    case False
    then have mem: "(i, u, s) \<in> set rs" using Cons.prems(2) by simp
    then have "u \<in> row_username ` set rs" by (force simp: row_username_def)
    then have "row_username r \<noteq> u" using Cons.prems(1) by auto
    then show ?thesis using Cons.IH mem Cons.prems(1) by simp
  qed
qed

lemma authenticate_after_insert:
  fixes db :: users_db
  assumes "u \<notin> set (map row_username (users db))"
  shows "authenticate_user h
           \<lparr>users = users db @ [(i, u, hash_password h p)], sqlite_sequence = k,
            leaked_writer = l\<rparr>
           u p"
  using select_absent [OF assms]
  by (simp add: authenticate_user_def select_password_where_username_def
      select_users_where_username_def row_username_def row_password_def fetchone_def)

lemma authenticate_user_absent:
  fixes db :: users_db
  assumes "u \<notin> set (map row_username (users db))"
  shows "authenticate_user h db u p = False"
  using select_absent [OF assms]
  by (simp add: authenticate_user_def select_password_where_username_def fetchone_def)

lemma authenticate_user_registered:
  fixes db :: users_db
  assumes "unique_usernames db" and "(i, u, s) \<in> set (users db)"
  shows "authenticate_user h db u p \<longleftrightarrow> s = hash_password h p"
  using stored_password_unique [OF assms [unfolded unique_usernames_def]]
  by (simp add: authenticate_user_def select_password_where_username_def
      select_users_where_username_def fetchone_def)

section \<open>Claims about the credential store\<close>

text \<open>
  C1, as the code has it. For every user name that no row of the credential store
  carries and every password, on a store whose write lock is free (no connection left
  open by a rejected \<^verbatim>\<open>add_user\<close>) and whose largest key is below 9223372036854775807:
  \<^verbatim>\<open>add_user\<close> with that pair returns True, and on the store it leaves
  \<^verbatim>\<open>authenticate_user\<close> with the same pair returns True; pressing Login on the login
  page with that pair then sets \<^verbatim>\<open>authenticated\<close> and records that user name in the
  session state, with no error message.
\<close>

theorem register_then_login_succeeds:
  fixes db :: users_db
  assumes "u \<notin> set (map row_username (users db))"
    and "\<not> leaked_writer db" and "largest_key db < max_rowid"
  shows "fst (add_user h u p db) = Inr True
       \<and> authenticate_user h (snd (add_user h u p db)) u p = True
       \<and> login_page h (snd (add_user h u p db)) st u p (Some Login)
           = (st\<lparr>authenticated := True, username := Some u\<rparr>, [])"
proof -
  have auth: "authenticate_user h (snd (add_user h u p db)) u p"
    using add_user_fresh [OF assms, of h p] authenticate_after_insert [OF assms(1), of h _ p]
    by simp
  then show ?thesis
    using add_user_fresh [OF assms, of h p] by (simp add: login_page_def)
qed

theorem register_then_login_succeeds_witness:
  "''alice'' \<notin> set (map row_username (users (setup_user_database None)))
   \<and> \<not> leaked_writer (setup_user_database None)
   \<and> largest_key (setup_user_database None) < max_rowid
   \<and> fst (add_user rev ''alice'' ''secret'' (setup_user_database None)) = Inr True
   \<and> authenticate_user rev
        (snd (add_user rev ''alice'' ''secret'' (setup_user_database None)))
        ''alice'' ''secret'' = True
   \<and> login_page rev (snd (add_user rev ''alice'' ''secret'' (setup_user_database None)))
        \<lparr>authenticated = False, signup = False, username = None\<rparr>
        ''alice'' ''secret'' (Some Login)
       = (\<lparr>authenticated = True, signup = False, username = Some ''alice''\<rparr>, [])"
proof -
  have fresh: "''alice'' \<notin> set (map row_username (users (setup_user_database None)))"
    by (simp add: setup_user_database_def)
  have free: "\<not> leaked_writer (setup_user_database None)"
    by (simp add: setup_user_database_def)
  have room: "largest_key (setup_user_database None) < max_rowid"
    by (simp add: setup_user_database_def largest_key_def max_rowid_def)
  show ?thesis
    using fresh free room
      register_then_login_succeeds [OF fresh free room, of rev "''secret''"
        "\<lparr>authenticated = False, signup = False, username = None\<rparr>"]
    by simp
qed

text \<open>
  C1 as the claim states it, for every store that lacks the user name, fails in two
  stores. The first is the one that the code itself leaves after alice has been
  registered and a second registration of alice has been rejected: the rejected call
  returned without closing its connection, no row carries the name bob, and
  \<^verbatim>\<open>add_user\<close> of bob raises OperationalError "database is locked" where the claim has
  it return True. The second is a store whose largest key is 9223372036854775807: there
  \<^verbatim>\<open>add_user\<close> of bob raises OperationalError "database or disk is full". The digest
  plays no part in either.
\<close>

theorem register_then_login_succeeds_counterexample:
  "''bob'' \<notin> set (map row_username (users
      (snd (add_user rev ''alice'' ''other''
         (snd (add_user rev ''alice'' ''secret'' (setup_user_database None)))))))
   \<and> fst (add_user rev ''bob'' ''pw''
      (snd (add_user rev ''alice'' ''other''
         (snd (add_user rev ''alice'' ''secret'' (setup_user_database None))))))
     = Inl (OperationalError ''database is locked'')
   \<and> ''bob'' \<notin> set (map row_username (users
      \<lparr>users = [(9223372036854775807, ''alice'', ''terces'')],
       sqlite_sequence = 9223372036854775807, leaked_writer = False\<rparr>))
   \<and> fst (add_user rev ''bob'' ''pw''
      \<lparr>users = [(9223372036854775807, ''alice'', ''terces'')],
       sqlite_sequence = 9223372036854775807, leaked_writer = False\<rparr>)
     = Inl (OperationalError ''database or disk is full'')"
  by (simp add: add_user_cases setup_user_database_def largest_key_def max_rowid_def
      next_rowid_def row_username_def hash_password_def)

text \<open>
  C4, as the code has it. After a registration of a user name has succeeded
  (\<^verbatim>\<open>add_user\<close> returned True, or the sign-up page reported the account as created), a
  second registration of the same user name is rejected whatever the password, and the
  rows and the key counter stay as they were:
  \<^item> the sign-up page shows "Username already exists" and leaves the store alone, in
    every case;
  \<^item> \<^verbatim>\<open>add_user\<close> returns False, leaving its connection open, unless the first
    registration took the last key 9223372036854775807; then it raises
    OperationalError "database or disk is full", which SQLite checks before the UNIQUE
    constraint.
\<close>

theorem second_register_rejected:
  fixes db :: users_db
  assumes "add_user h u p db = (Inr True, db1)
         \<or> signup_page h db st0 u p c (Some Sign_Up) = (db1, st1, [Account_created])"
  shows "signup_page h db1 st u p' p' (Some Sign_Up) = (db1, st, [Username_already_exists])
       \<and> add_user h u p' db1 =
           (if largest_key db1 < max_rowid then (Inr False, db1\<lparr>leaked_writer := True\<rparr>)
            else (Inl (OperationalError ''database or disk is full''), db1))
       \<and> users (snd (add_user h u p' db1)) = users db1
       \<and> sqlite_sequence (snd (add_user h u p' db1)) = sqlite_sequence db1"
proof -
  have "add_user h u p db = (Inr True, db1)"
    using assms signup_page_created by blast
  then have taken: "u \<in> set (map row_username (users db1))" and free: "\<not> leaked_writer db1"
    using add_user_registers by blast+
  have page: "signup_page h db1 st u p' p' (Some Sign_Up) = (db1, st, [Username_already_exists])"
    using taken by (rule signup_page_taken)
  have second: "add_user h u p' db1 =
           (if largest_key db1 < max_rowid then (Inr False, db1\<lparr>leaked_writer := True\<rparr>)
            else (Inl (OperationalError ''database or disk is full''), db1))"
    using taken free by (simp add: add_user_cases)
  show ?thesis
    using page second by simp
qed

theorem second_register_rejected_witness:
  "add_user rev ''alice'' ''secret'' (setup_user_database None)
     = (Inr True, \<lparr>users = [(1, ''alice'', ''terces'')], sqlite_sequence = 1,
                   leaked_writer = False\<rparr>)
   \<and> add_user rev ''alice'' ''other''
        \<lparr>users = [(1, ''alice'', ''terces'')], sqlite_sequence = 1, leaked_writer = False\<rparr>
     = (Inr False,
        \<lparr>users = [(1, ''alice'', ''terces'')], sqlite_sequence = 1, leaked_writer = True\<rparr>)
   \<and> signup_page rev
        \<lparr>users = [(1, ''alice'', ''terces'')], sqlite_sequence = 1, leaked_writer = False\<rparr>
        \<lparr>authenticated = False, signup = True, username = None\<rparr>
        ''alice'' ''other'' ''other'' (Some Sign_Up)
     = (\<lparr>users = [(1, ''alice'', ''terces'')], sqlite_sequence = 1, leaked_writer = False\<rparr>,
        \<lparr>authenticated = False, signup = True, username = None\<rparr>,
        [Username_already_exists])"
proof -
  have first: "add_user rev ''alice'' ''secret'' (setup_user_database None)
     = (Inr True, \<lparr>users = [(1, ''alice'', ''terces'')], sqlite_sequence = 1,
                   leaked_writer = False\<rparr>)"
    by (simp add: add_user_cases setup_user_database_def hash_password_def next_rowid_def
        largest_key_def max_rowid_def)
  have room: "largest_key
      \<lparr>users = [(1, ''alice'', ''terces'')], sqlite_sequence = 1, leaked_writer = False\<rparr>
      < max_rowid"
    by (simp add: largest_key_def max_rowid_def)
  show ?thesis
    using first room
      second_register_rejected [where p' = "''other''"
        and st = "\<lparr>authenticated = False, signup = True, username = None\<rparr>",
        OF disjI1 [OF first]]
    by simp
qed

text \<open>
  C4 as the claim states it fails for \<^verbatim>\<open>add_user\<close> when the first registration takes
  the last key. On a store whose key counter stands at 9223372036854775806 the
  registration of alice succeeds with the key 9223372036854775807; the second
  registration of alice does not return False but raises OperationalError "database or
  disk is full".
\<close>

theorem second_register_rejected_counterexample:
  "add_user rev ''alice'' ''secret''
      \<lparr>users = [], sqlite_sequence = 9223372036854775806, leaked_writer = False\<rparr>
     = (Inr True, \<lparr>users = [(9223372036854775807, ''alice'', ''terces'')],
                   sqlite_sequence = 9223372036854775807, leaked_writer = False\<rparr>)
   \<and> add_user rev ''alice'' ''other''
        \<lparr>users = [(9223372036854775807, ''alice'', ''terces'')],
         sqlite_sequence = 9223372036854775807, leaked_writer = False\<rparr>
     = (Inl (OperationalError ''database or disk is full''),
        \<lparr>users = [(9223372036854775807, ''alice'', ''terces'')],
         sqlite_sequence = 9223372036854775807, leaked_writer = False\<rparr>)"
  by (simp add: add_user_cases largest_key_def max_rowid_def next_rowid_def
      row_username_def hash_password_def)

text \<open>
  C10. On a table that satisfies its UNIQUE constraint, \<^verbatim>\<open>authenticate_user\<close> returns
  the same value, False, for a user name that no row carries as for a registered user
  name with a password whose hash is not the stored one; the login page shows the
  same message and leaves the session state alone in both cases.
\<close>

theorem login_failure_indistinguishable:
  fixes db :: users_db
  assumes "unique_usernames db"
    and "u \<notin> set (map row_username (users db))"
    and "(i, u', stored) \<in> set (users db)"
    and "stored \<noteq> hash_password h p'"
  shows "authenticate_user h db u p = False
       \<and> authenticate_user h db u' p' = False
       \<and> login_page h db st u p (Some Login) = (st, [Invalid_credentials])
       \<and> login_page h db st u' p' (Some Login) = login_page h db st u p (Some Login)"
  using authenticate_user_absent [OF assms(2), of h p]
    authenticate_user_registered [OF assms(1) assms(3), of h p'] assms(4)
  by (simp add: login_page_def)

theorem login_failure_indistinguishable_witness:
  "unique_usernames \<lparr>users = [(1, ''alice'', ''terces'')], sqlite_sequence = 1, leaked_writer = False\<rparr>
   \<and> ''bob'' \<notin> set (map row_username (users \<lparr>users = [(1, ''alice'', ''terces'')], sqlite_sequence = 1, leaked_writer = False\<rparr>))
   \<and> (1, ''alice'', ''terces'') \<in> set (users \<lparr>users = [(1, ''alice'', ''terces'')], sqlite_sequence = 1, leaked_writer = False\<rparr>)
   \<and> ''terces'' \<noteq> hash_password rev ''guess''
   \<and> authenticate_user rev \<lparr>users = [(1, ''alice'', ''terces'')], sqlite_sequence = 1, leaked_writer = False\<rparr> ''bob'' ''guess'' = False
   \<and> authenticate_user rev \<lparr>users = [(1, ''alice'', ''terces'')], sqlite_sequence = 1, leaked_writer = False\<rparr> ''alice'' ''guess'' = False
   \<and> login_page rev \<lparr>users = [(1, ''alice'', ''terces'')], sqlite_sequence = 1, leaked_writer = False\<rparr>
        \<lparr>authenticated = False, signup = False, username = None\<rparr> ''alice'' ''guess'' (Some Login)
      = login_page rev \<lparr>users = [(1, ''alice'', ''terces'')], sqlite_sequence = 1, leaked_writer = False\<rparr>
        \<lparr>authenticated = False, signup = False, username = None\<rparr> ''bob'' ''guess'' (Some Login)"
proof -
  let ?db = "\<lparr>users = [(1, ''alice'', ''terces'')], sqlite_sequence = 1, leaked_writer = False\<rparr>"
  have a: "unique_usernames ?db" by (simp add: unique_usernames_def)
  have b: "''bob'' \<notin> set (map row_username (users ?db))" by (simp add: row_username_def)
  have c: "(1, ''alice'', ''terces'') \<in> set (users ?db)" by simp
  have d: "''terces'' \<noteq> hash_password rev ''guess''" by (simp add: hash_password_def)
  show ?thesis
    using a b c d
      login_failure_indistinguishable [OF a b c d, of "''guess''"
        "\<lparr>authenticated = False, signup = False, username = None\<rparr>"]
    by simp
qed

section \<open>Properties of the dataset store and of the filters\<close>

lemma get_loc_None_iff: "get_loc cs name = None \<longleftrightarrow> name \<notin> set cs"
  by (induction cs) auto

lemma getitem_present:
  assumes "name \<in> set (columns df)"
  shows "getitem df name = Inr (map (\<lambda>r. cell_of (columns df) r name) (rows df))"
proof -
  obtain i where "get_loc (columns df) name = Some i"
    using assms get_loc_None_iff [of "columns df" name] by (cases "get_loc (columns df) name") auto
  then show ?thesis by (simp add: getitem_def cell_of_def)
qed

lemma getitem_absent:
  assumes "name \<notin> set (columns df)"
  shows "getitem df name = Inl KeyError"
  using assms get_loc_None_iff [of "columns df" name] by (simp add: getitem_def)

lemma keep_rows: "map snd (filter fst (zip (map P xs) xs)) = filter P xs"
  by (induction xs) auto

lemma series_and_map: "series_and (map P xs) (map Q xs) = map (\<lambda>x. P x \<and> Q x) xs"
  by (induction xs) (auto simp: series_and_def)

lemma set_unique: "set (unique s) = set s"
  by (simp add: unique_def)

lemma filtered_df_rows:
  assumes "''STATE'' \<in> set (columns df)" and "''CITY'' \<in> set (columns df)"
    and "''DESCRIPTION'' \<in> set (columns df)"
  shows "filtered_df df state city selected =
           Inr (df\<lparr>rows := filter
                  (\<lambda>r. (cell_of (columns df) r ''STATE'' \<noteq> Null \<and> state \<noteq> Null
                         \<and> cell_of (columns df) r ''STATE'' = state)
                     \<and> (cell_of (columns df) r ''CITY'' \<noteq> Null \<and> city \<noteq> Null
                         \<and> cell_of (columns df) r ''CITY'' = city)
                     \<and> cell_of (columns df) r ''DESCRIPTION'' \<in> set selected)
                  (rows df)\<rparr>)"
  by (simp add: filtered_df_def getitem_present [OF assms(1)] getitem_present [OF assms(2)]
      getitem_present [OF assms(3)] series_eq_def isin_def series_and_map getitem_mask_def
      keep_rows conj_assoc)

lemma filtered_df_by_criteria:
  assumes "''STATE'' \<in> set (columns df)" and "''CITY'' \<in> set (columns df)"
    and "''DESCRIPTION'' \<in> set (columns df)"
    and "state \<noteq> Null" and "city \<noteq> Null"
  shows "filtered_df df state city selected =
           Inr (df\<lparr>rows := filter (criteria_match (columns df) state city selected) (rows df)\<rparr>)"
proof -
  have "filter
          (\<lambda>r. (cell_of (columns df) r ''STATE'' \<noteq> Null \<and> state \<noteq> Null
                 \<and> cell_of (columns df) r ''STATE'' = state)
             \<and> (cell_of (columns df) r ''CITY'' \<noteq> Null \<and> city \<noteq> Null
                 \<and> cell_of (columns df) r ''CITY'' = city)
             \<and> cell_of (columns df) r ''DESCRIPTION'' \<in> set selected)
          (rows df)
        = filter (criteria_match (columns df) state city selected) (rows df)"
    using assms(4,5)
    by (intro filter_cong refl) (auto simp: criteria_match_def state_city_match_def)
  then show ?thesis
    using filtered_df_rows [OF assms(1-3), of state city selected] by simp
qed

lemma vaccine_options_set:
  assumes "vaccine_options df = Inr opts"
  shows "set opts = {c. c \<noteq> Null \<and> (\<exists>r \<in> set (rows df). c = cell_of (columns df) r ''DESCRIPTION'')}"
proof (cases "''DESCRIPTION'' \<in> set (columns df)")
  case True
  then have "opts = unique (dropna (map (\<lambda>r. cell_of (columns df) r ''DESCRIPTION'') (rows df)))"
    using assms by (simp add: vaccine_options_def getitem_present)
  then show ?thesis by (auto simp: set_unique dropna_def)
next
  case False
  then show ?thesis using assms by (simp add: vaccine_options_def getitem_absent)
qed

lemma load_when_present:
  assumes "is_data_present t"
  shows "load_data_into_db dataset t = (t, [], Inr ())"
  using assms by (simp add: load_data_into_db_def)

lemma load_writes:
  assumes "\<not> is_data_present t"
  shows "load_data_into_db (Some df) t = (to_sql_replace df, [Data_loaded_successfully], Inr ())"
  using assms by (simp add: load_data_into_db_def os_path_exists_def read_excel_def)

lemma load_never_raises: "snd (snd (load_data_into_db dataset t)) = Inr ()"
  by (cases dataset) (simp_all add: load_data_into_db_def os_path_exists_def read_excel_def)

lemma to_sql_replace_no_key:
  "\<forall>c \<in> set (schema (to_sql_replace df)). \<not> primary_key_autoincrement c"
  by (simp add: to_sql_replace_def plain_column_def)

section \<open>Claims about the dataset store and the filters\<close>

text \<open>
  C2. On a frame that has the columns STATE, CITY and DESCRIPTION, and for a state and
  a city that are values (not the \<open>None\<close> of an empty select box), the filter of line 195
  returns a frame, never an error, whose rows are exactly the rows of the input, in
  their order, whose state is the given state, whose city is the given city and whose
  description is one of the selected ones. When no row matches, that frame has no
  rows.
\<close>

theorem filtered_df_exact:
  assumes "''STATE'' \<in> set (columns df)" and "''CITY'' \<in> set (columns df)"
    and "''DESCRIPTION'' \<in> set (columns df)"
    and "state \<noteq> Null" and "city \<noteq> Null"
  shows "filtered_df df state city selected =
           Inr (df\<lparr>rows := filter (criteria_match (columns df) state city selected) (rows df)\<rparr>)"
  using assms by (rule filtered_df_by_criteria)

text \<open>
  The witness is the scenario of the specification: three records, of which the
  criteria (CA, LA, {VaxA}) select the first; and the criteria (TX, Austin, {VaxA}),
  which select none.
\<close>

theorem filtered_df_exact_witness:
  "filtered_df
     \<lparr>columns = [''STATE'', ''CITY'', ''VACCINATED'', ''Year'', ''DESCRIPTION''],
      rows = [[TextV ''CA'', TextV ''LA'', IntV 1, IntV 2021, TextV ''VaxA''],
              [TextV ''CA'', TextV ''LA'', IntV 0, IntV 2021, TextV ''VaxB''],
              [TextV ''NY'', TextV ''NYC'', IntV 1, IntV 2021, TextV ''VaxA'']]\<rparr>
     (TextV ''CA'') (TextV ''LA'') [TextV ''VaxA'']
   = Inr \<lparr>columns = [''STATE'', ''CITY'', ''VACCINATED'', ''Year'', ''DESCRIPTION''],
          rows = [[TextV ''CA'', TextV ''LA'', IntV 1, IntV 2021, TextV ''VaxA'']]\<rparr>
   \<and> filtered_df
     \<lparr>columns = [''STATE'', ''CITY'', ''VACCINATED'', ''Year'', ''DESCRIPTION''],
      rows = [[TextV ''CA'', TextV ''LA'', IntV 1, IntV 2021, TextV ''VaxA''],
              [TextV ''CA'', TextV ''LA'', IntV 0, IntV 2021, TextV ''VaxB''],
              [TextV ''NY'', TextV ''NYC'', IntV 1, IntV 2021, TextV ''VaxA'']]\<rparr>
     (TextV ''TX'') (TextV ''Austin'') [TextV ''VaxA'']
   = Inr \<lparr>columns = [''STATE'', ''CITY'', ''VACCINATED'', ''Year'', ''DESCRIPTION''],
          rows = []\<rparr>"
proof -
  let ?df = "\<lparr>columns = [''STATE'', ''CITY'', ''VACCINATED'', ''Year'', ''DESCRIPTION''],
      rows = [[TextV ''CA'', TextV ''LA'', IntV 1, IntV 2021, TextV ''VaxA''],
              [TextV ''CA'', TextV ''LA'', IntV 0, IntV 2021, TextV ''VaxB''],
              [TextV ''NY'', TextV ''NYC'', IntV 1, IntV 2021, TextV ''VaxA'']]\<rparr>"
  have s: "''STATE'' \<in> set (columns ?df)" by simp
  have c: "''CITY'' \<in> set (columns ?df)" by simp
  have d: "''DESCRIPTION'' \<in> set (columns ?df)" by simp
  have n1: "TextV ''CA'' \<noteq> Null" and n2: "TextV ''LA'' \<noteq> Null"
    and n3: "TextV ''TX'' \<noteq> Null" and n4: "TextV ''Austin'' \<noteq> Null" by simp_all
  show ?thesis
    using filtered_df_exact [OF s c d n1 n2, of "[TextV ''VaxA'']"]
      filtered_df_exact [OF s c d n3 n4, of "[TextV ''VaxA'']"]
    by (simp add: criteria_match_def state_city_match_def cell_of_def)
qed

text \<open>
  C6, as the code has it. When the selection is the whole of \<^verbatim>\<open>vaccine_options\<close>, the
  filter returns exactly the rows that match the state and the city and whose
  description is not missing: \<^verbatim>\<open>dropna\<close> keeps the missing value out of the options,
  so \<^verbatim>\<open>isin\<close> is False on a row without a description.
\<close>

theorem filtered_df_all_vaccines:
  assumes "''STATE'' \<in> set (columns df)" and "''CITY'' \<in> set (columns df)"
    and "state \<noteq> Null" and "city \<noteq> Null"
    and "vaccine_options df = Inr opts" and "set selected = set opts"
  shows "filtered_df df state city selected =
           Inr (df\<lparr>rows := filter
                  (\<lambda>r. state_city_match (columns df) state city r \<and> has_description (columns df) r)
                  (rows df)\<rparr>)"
proof -
  have d: "''DESCRIPTION'' \<in> set (columns df)"
  proof (rule ccontr)
    assume "''DESCRIPTION'' \<notin> set (columns df)"
    then show False using assms(5) by (simp add: vaccine_options_def getitem_absent)
  qed
  have sel: "set selected =
      {c. c \<noteq> Null \<and> (\<exists>r \<in> set (rows df). c = cell_of (columns df) r ''DESCRIPTION'')}"
    using vaccine_options_set [OF assms(5)] assms(6) by simp
  have "filter (criteria_match (columns df) state city selected) (rows df)
        = filter (\<lambda>r. state_city_match (columns df) state city r \<and> has_description (columns df) r)
            (rows df)"
    by (intro filter_cong refl) (auto simp: criteria_match_def has_description_def sel)
  then show ?thesis
    using filtered_df_by_criteria [OF assms(1) assms(2) d assms(3) assms(4), of selected] by simp
qed

theorem filtered_df_all_vaccines_witness:
  "vaccine_options
     \<lparr>columns = [''STATE'', ''CITY'', ''DESCRIPTION''],
      rows = [[TextV ''CA'', TextV ''LA'', TextV ''VaxA''],
              [TextV ''CA'', TextV ''LA'', Null],
              [TextV ''NY'', TextV ''NYC'', TextV ''VaxB'']]\<rparr>
   = Inr [TextV ''VaxA'', TextV ''VaxB'']
   \<and> filtered_df
     \<lparr>columns = [''STATE'', ''CITY'', ''DESCRIPTION''],
      rows = [[TextV ''CA'', TextV ''LA'', TextV ''VaxA''],
              [TextV ''CA'', TextV ''LA'', Null],
              [TextV ''NY'', TextV ''NYC'', TextV ''VaxB'']]\<rparr>
     (TextV ''CA'') (TextV ''LA'') [TextV ''VaxA'', TextV ''VaxB'']
   = Inr \<lparr>columns = [''STATE'', ''CITY'', ''DESCRIPTION''],
          rows = [[TextV ''CA'', TextV ''LA'', TextV ''VaxA'']]\<rparr>"
proof -
  let ?df = "\<lparr>columns = [''STATE'', ''CITY'', ''DESCRIPTION''],
      rows = [[TextV ''CA'', TextV ''LA'', TextV ''VaxA''],
              [TextV ''CA'', TextV ''LA'', Null],
              [TextV ''NY'', TextV ''NYC'', TextV ''VaxB'']]\<rparr>"
  have s: "''STATE'' \<in> set (columns ?df)" by simp
  have c: "''CITY'' \<in> set (columns ?df)" by simp
  have n1: "TextV ''CA'' \<noteq> Null" and n2: "TextV ''LA'' \<noteq> Null" by simp_all
  have opts: "vaccine_options ?df = Inr [TextV ''VaxA'', TextV ''VaxB'']"
    by (simp add: vaccine_options_def getitem_def unique_def dropna_def)
  have same: "set [TextV ''VaxA'', TextV ''VaxB''] = set [TextV ''VaxA'', TextV ''VaxB'']"
    by simp
  show ?thesis
    using opts filtered_df_all_vaccines [OF s c n1 n2 opts same]
    by (simp add: state_city_match_def has_description_def cell_of_def)
qed

text \<open>
  C6 as the claim states it fails on a record without a description: the frame below
  has two records of (CA, LA), one of them with a missing description. The options are
  [VaxA], and the filter with all of them selected returns the first record only, not
  the two records that match the state and the city.
\<close>

theorem filtered_df_all_vaccines_counterexample:
  "vaccine_options
     \<lparr>columns = [''STATE'', ''CITY'', ''DESCRIPTION''],
      rows = [[TextV ''CA'', TextV ''LA'', TextV ''VaxA''],
              [TextV ''CA'', TextV ''LA'', Null]]\<rparr>
   = Inr [TextV ''VaxA'']
   \<and> filtered_df
     \<lparr>columns = [''STATE'', ''CITY'', ''DESCRIPTION''],
      rows = [[TextV ''CA'', TextV ''LA'', TextV ''VaxA''],
              [TextV ''CA'', TextV ''LA'', Null]]\<rparr>
     (TextV ''CA'') (TextV ''LA'') [TextV ''VaxA'']
   \<noteq> Inr \<lparr>columns = [''STATE'', ''CITY'', ''DESCRIPTION''],
          rows = filter
                   (state_city_match [''STATE'', ''CITY'', ''DESCRIPTION''] (TextV ''CA'') (TextV ''LA''))
                   [[TextV ''CA'', TextV ''LA'', TextV ''VaxA''],
                    [TextV ''CA'', TextV ''LA'', Null]]\<rparr>"
  by (simp add: vaccine_options_def filtered_df_def getitem_def unique_def dropna_def
      series_eq_def isin_def series_and_def getitem_mask_def state_city_match_def cell_of_def)

text \<open>
  C3. Loading twice from the same dataset file gives the table that loading once
  gives, and so the same full record set; and whenever the table holds a row after the
  first call, a second call writes nothing, prints nothing and returns, whatever the
  dataset file holds by then.
\<close>

theorem load_twice_no_duplication:
  "fst (load_data_into_db dataset (fst (load_data_into_db dataset t)))
     = fst (load_data_into_db dataset t)
   \<and> read_sql_select_all (fst (load_data_into_db dataset (fst (load_data_into_db dataset t))))
     = read_sql_select_all (fst (load_data_into_db dataset t))
   \<and> (is_data_present (fst (load_data_into_db dataset t)) \<longrightarrow>
        load_data_into_db dataset' (fst (load_data_into_db dataset t))
          = (fst (load_data_into_db dataset t), [], Inr ()))"
proof -
  have once: "fst (load_data_into_db dataset (fst (load_data_into_db dataset t)))
     = fst (load_data_into_db dataset t)"
    by (cases dataset)
      (simp_all add: load_data_into_db_def os_path_exists_def read_excel_def)
  show ?thesis
    using once load_when_present [of "fst (load_data_into_db dataset t)" dataset'] by simp
qed

theorem load_twice_no_duplication_witness:
  "is_data_present
     (fst (load_data_into_db
        (Some \<lparr>columns = [''STATE'', ''CITY''], rows = [[TextV ''CA'', TextV ''LA'']]\<rparr>)
        (setup_vaccination_database None)))
   \<and> read_sql_select_all (fst (load_data_into_db
        (Some \<lparr>columns = [''STATE'', ''CITY''], rows = [[TextV ''NY'', TextV ''NYC'']]\<rparr>)
        (fst (load_data_into_db
           (Some \<lparr>columns = [''STATE'', ''CITY''], rows = [[TextV ''CA'', TextV ''LA'']]\<rparr>)
           (setup_vaccination_database None)))))
     = \<lparr>columns = [''STATE'', ''CITY''], rows = [[TextV ''CA'', TextV ''LA'']]\<rparr>"
proof -
  let ?d = "Some \<lparr>columns = [''STATE'', ''CITY''], rows = [[TextV ''CA'', TextV ''LA'']]\<rparr>"
  let ?d' = "Some \<lparr>columns = [''STATE'', ''CITY''], rows = [[TextV ''NY'', TextV ''NYC'']]\<rparr>"
  have first: "fst (load_data_into_db ?d (setup_vaccination_database None))
      = \<lparr>schema = [plain_column ''STATE'', plain_column ''CITY''],
         body = [[TextV ''CA'', TextV ''LA'']]\<rparr>"
    by (simp add: load_data_into_db_def setup_vaccination_database_def is_data_present_def
        to_sql_replace_def os_path_exists_def read_excel_def)
  have present: "is_data_present (fst (load_data_into_db ?d (setup_vaccination_database None)))"
    by (simp add: first is_data_present_def)
  show ?thesis
    using present
      load_twice_no_duplication [of ?d "setup_vaccination_database None" ?d']
    by (simp add: first read_sql_select_all_def plain_column_def)
qed

text \<open>
  C8, as the code has it. When the dataset file is absent and the table holds no row,
  \<^verbatim>\<open>load_data_into_db\<close> writes nothing and prints the line "Error: File not found at
  the specified path!" and no other line, in particular not the line of a successful
  load. It raises nothing: it returns \<open>None\<close>, as it does after a successful load, and
  the failure is reported on the console only.
\<close>

theorem missing_file_reported:
  assumes "\<not> is_data_present t"
  shows "load_data_into_db None t = (t, [Error_file_not_found], Inr ())
       \<and> Data_loaded_successfully \<notin> set (fst (snd (load_data_into_db None t)))"
  using assms by (simp add: load_data_into_db_def os_path_exists_def)

theorem missing_file_reported_witness:
  "\<not> is_data_present (setup_vaccination_database None)
   \<and> load_data_into_db None (setup_vaccination_database None)
       = (\<lparr>schema = declared_schema, body = []\<rparr>, [Error_file_not_found], Inr ())"
proof -
  have empty: "\<not> is_data_present (setup_vaccination_database None)"
    by (simp add: is_data_present_def setup_vaccination_database_def)
  show ?thesis
    using empty missing_file_reported [OF empty]
    by (simp add: setup_vaccination_database_def)
qed

text \<open>
  C8 as the claim states it, that the call fails with an error and does not complete as
  a successful one does, is not what the code does. On the freshly set up table with
  the dataset file absent the call raises neither \<^verbatim>\<open>FileNotFoundError\<close> nor anything
  else; it hands back the same \<open>None\<close> as the call that finds a file and loads it, and
  line 75 goes on in both cases.
\<close>

theorem missing_file_reported_counterexample:
  "snd (snd (load_data_into_db None (setup_vaccination_database None))) = Inr ()
   \<and> snd (snd (load_data_into_db None (setup_vaccination_database None)))
       \<noteq> Inl FileNotFoundError
   \<and> snd (snd (load_data_into_db None (setup_vaccination_database None)))
     = snd (snd (load_data_into_db
         (Some \<lparr>columns = [''STATE'', ''CITY''], rows = [[TextV ''CA'', TextV ''LA'']]\<rparr>)
         (setup_vaccination_database None)))"
  by (simp add: load_data_into_db_def os_path_exists_def read_excel_def
      setup_vaccination_database_def is_data_present_def)

text \<open>
  C7 at a dataset file with the eight columns of the specification and one record,
  loaded into the freshly set up table. \<^verbatim>\<open>to_sql\<close> with \<^verbatim>\<open>if_exists="replace"\<close> drops the
  table that \<^verbatim>\<open>setup_vaccination_database\<close> declared: the table afterwards has the
  eight columns of the file, none of them named id, none of them an AUTOINCREMENT key,
  and its schema is not the declared one.
\<close>

theorem load_replaces_declared_schema:
  "schema (fst (load_data_into_db
      (Some \<lparr>columns = [''STATE'', ''CITY'', ''AGE_GROUP'', ''GENDER'', ''ETHNICITY'',
                         ''VACCINATED'', ''Year'', ''DESCRIPTION''],
             rows = [[TextV ''CA'', TextV ''LA'', TextV ''18-29'', TextV ''F'', TextV ''Asian'',
                      IntV 1, IntV 2021, TextV ''VaxA'']]\<rparr>)
      (setup_vaccination_database None)))
   = map plain_column [''STATE'', ''CITY'', ''AGE_GROUP'', ''GENDER'', ''ETHNICITY'',
                       ''VACCINATED'', ''Year'', ''DESCRIPTION'']
   \<and> schema (fst (load_data_into_db
      (Some \<lparr>columns = [''STATE'', ''CITY'', ''AGE_GROUP'', ''GENDER'', ''ETHNICITY'',
                         ''VACCINATED'', ''Year'', ''DESCRIPTION''],
             rows = [[TextV ''CA'', TextV ''LA'', TextV ''18-29'', TextV ''F'', TextV ''Asian'',
                      IntV 1, IntV 2021, TextV ''VaxA'']]\<rparr>)
      (setup_vaccination_database None)))
   \<noteq> schema (setup_vaccination_database None)
   \<and> read_sql_select_all (fst (load_data_into_db
      (Some \<lparr>columns = [''STATE'', ''CITY'', ''AGE_GROUP'', ''GENDER'', ''ETHNICITY'',
                         ''VACCINATED'', ''Year'', ''DESCRIPTION''],
             rows = [[TextV ''CA'', TextV ''LA'', TextV ''18-29'', TextV ''F'', TextV ''Asian'',
                      IntV 1, IntV 2021, TextV ''VaxA'']]\<rparr>)
      (setup_vaccination_database None)))
   = \<lparr>columns = [''STATE'', ''CITY'', ''AGE_GROUP'', ''GENDER'', ''ETHNICITY'',
                  ''VACCINATED'', ''Year'', ''DESCRIPTION''],
      rows = [[TextV ''CA'', TextV ''LA'', TextV ''18-29'', TextV ''F'', TextV ''Asian'',
               IntV 1, IntV 2021, TextV ''VaxA'']]\<rparr>"
  by (simp add: load_data_into_db_def setup_vaccination_database_def is_data_present_def
      to_sql_replace_def declared_schema_def read_sql_select_all_def plain_column_def
      os_path_exists_def read_excel_def)

section \<open>Claims about the forecast engine\<close>

lemma insufficient_data_iff:
  "fit_and_forecast arima series horizon (p, d, q) = Inl InsufficientData
     \<longleftrightarrow> length series < max 2 (p + d + q + 1)"
  by (simp add: fit_and_forecast_def required_points_def split: option.splits)

text \<open>
  C9. On a series of exactly one point \<^verbatim>\<open>fit_and_forecast\<close> fails with
  InsufficientData and returns no predictions, for every order, every horizon and
  whatever the fit would do: one point is fewer than the number required.
\<close>

theorem one_point_insufficient:
  assumes "length series = 1"
  shows "fit_and_forecast arima series horizon order = Inl InsufficientData"
  using assms by (cases order) (simp add: fit_and_forecast_def required_points_def)

theorem one_point_insufficient_witness:
  "length [(2018::int, 100::int)] = 1
   \<and> fit_and_forecast (\<lambda>series horizon order. Some (replicate horizon (0::int)))
        [(2018::int, 100::int)] 2 (1, 1, 0) = Inl InsufficientData
   \<and> fit_and_forecast (\<lambda>series horizon order. Some (replicate horizon (0::int)))
        [(2018::int, 100::int)] 2 (0, 0, 0) = Inl InsufficientData"
proof -
  have l: "length [(2018::int, 100::int)] = 1" by simp
  show ?thesis
    using l
      one_point_insufficient [OF l, of "\<lambda>series horizon order. Some (replicate horizon (0::int))"
        2 "(1, 1, 0)"]
      one_point_insufficient [OF l, of "\<lambda>series horizon order. Some (replicate horizon (0::int))"
        2 "(0, 0, 0)"]
    by simp
qed

end
